theory Spec2Isabelle
  imports Complex_Main "HOL-Library.AList"
begin

section \<open>Python values\<close>

text \<open>
  The state record, the weather payload and the state file all hold what Python's
  \<^verbatim>\<open>json.load\<close> returns. A dict is an association list read with \<open>map_of\<close>;
  a float is the real number it denotes (every comparison the program makes on one is
  exact), so the non-finite values \<^verbatim>\<open>NaN\<close> and \<^verbatim>\<open>Infinity\<close> are left out.
\<close>

datatype json =
    JNull
  | JBool bool
  | JInt int
  | JFloat real
  | JStr string
  | JArr "json list"
  | JObj "(string \<times> json) list"

datatype exc =
  KeyError | TypeError | IndexError | FileNotFoundError | JSONDecodeError | OSError

text \<open>\<^verbatim>\<open>bool(v)\<close>, the test behind \<^verbatim>\<open>if v\<close> and \<^verbatim>\<open>not v\<close>.\<close>

fun truthy :: "json \<Rightarrow> bool" where
  "truthy JNull = False"
| "truthy (JBool b) = b"
| "truthy (JInt n) = (n \<noteq> 0)"
| "truthy (JFloat r) = (r \<noteq> 0)"
| "truthy (JStr s) = (s \<noteq> [])"
| "truthy (JArr xs) = (xs \<noteq> [])"
| "truthy (JObj kvs) = (kvs \<noteq> [])"

text \<open>\<^verbatim>\<open>v[k]\<close> for a string key \<open>k\<close>: only a dict answers, and only for a key it has.\<close>

fun getitem :: "json \<Rightarrow> string \<Rightarrow> exc + json" where
  "getitem (JObj kvs) k = (case map_of kvs k of None \<Rightarrow> Inl KeyError | Some v \<Rightarrow> Inr v)"
| "getitem _ k = Inl TypeError"

text \<open>
  \<^verbatim>\<open>v[0]\<close>: the first element of a list, the first character of a string; a dict
  parsed from JSON has string keys only, so the key \<open>0\<close> is missing from it.
\<close>

fun getitem0 :: "json \<Rightarrow> exc + json" where
  "getitem0 (JArr []) = Inl IndexError"
| "getitem0 (JArr (x # xs)) = Inr x"
| "getitem0 (JStr []) = Inl IndexError"
| "getitem0 (JStr (c # cs)) = Inr (JStr [c])"
| "getitem0 (JObj kvs) = Inl KeyError"
| "getitem0 _ = Inl TypeError"

text \<open>\<^verbatim>\<open>d[k] = v\<close>: a dict takes the item, keeping the place of a key it already has.\<close>

fun setitem :: "json \<Rightarrow> string \<Rightarrow> json \<Rightarrow> exc + json" where
  "setitem (JObj kvs) k v = Inr (JObj (AList.update k v kvs))"
| "setitem _ k v = Inl TypeError"

text \<open>\<^verbatim>\<open>v < n\<close> for an integer \<open>n\<close>: numbers compare by value (a bool is 0 or 1).\<close>

fun less_int :: "json \<Rightarrow> int \<Rightarrow> exc + bool" where
  "less_int (JInt i) n = Inr (i < n)"
| "less_int (JFloat r) n = Inr (r < of_int n)"
| "less_int (JBool b) n = Inr ((if b then 1 else 0) < n)"
| "less_int _ n = Inl TypeError"

text \<open>\<^verbatim>\<open>n == v\<close> for an integer \<open>n\<close>: never raises; a value that is no number differs.\<close>

fun eq_int :: "int \<Rightarrow> json \<Rightarrow> bool" where
  "eq_int n (JInt i) = (n = i)"
| "eq_int n (JFloat r) = (of_int n = r)"
| "eq_int n (JBool b) = (n = (if b then 1 else 0))"
| "eq_int n _ = False"

definition sbind :: "exc + 'a \<Rightarrow> ('a \<Rightarrow> exc + 'b) \<Rightarrow> exc + 'b" where
  "sbind r f = (case r of Inl x \<Rightarrow> Inl x | Inr v \<Rightarrow> f v)"

section \<open>Constants\<close>

text \<open>The entries of \<^verbatim>\<open>TEMPERATURE_PROFILE\<close>, in Kelvin.\<close>

definition DAY_CLEAR :: int where "DAY_CLEAR = 6500"
definition DAY_CLOUDY :: int where "DAY_CLOUDY = 5800"
definition DAY_RAINY :: int where "DAY_RAINY = 5200"
definition NIGHT_DEFAULT :: int where "NIGHT_DEFAULT = 4200"
definition NIGHT_COLD :: int where "NIGHT_COLD = 3800"
definition BLUELIGHT_OFF :: int where "BLUELIGHT_OFF = 6500"
definition BLUELIGHT_ON :: int where "BLUELIGHT_ON = 4000"
definition MANUAL_ON :: int where "MANUAL_ON = 5000"
definition MANUAL_OFF :: int where "MANUAL_OFF = 6500"

section \<open>The manager, the disk and the surroundings\<close>

text \<open>
  What opening and parsing \<^verbatim>\<open>STATE_FILE\<close> gives: no file, a file that is not JSON
  (\<^verbatim>\<open>JSONDecodeError\<close>), a file that cannot be read (any other exception), or the
  parsed value. What \<^verbatim>\<open>json.dump\<close> writes parses back to the value written.
\<close>

datatype disk_file = Missing | Not_JSON | Unreadable | Json json

text \<open>The desktop notices, one constructor for each message text of the source.\<close>

datatype notice =
    Cannot_toggle_in_automatic
  | Temperature_set int
  | Not_installed
  | Error_setting
  | Toggled_on
  | Toggled_off
  | Switched_to_automatic
  | Switched_to_manual
  | Already_automatic
  | Already_manual

datatype printed = Usage | Usage_test | Invalid_temperature

text \<open>
  \<open>state\<close> is \<^verbatim>\<open>self.state\<close>; \<open>state_file\<close> is the file on disk; \<open>running\<close>
  is the temperature of the live \<^verbatim>\<open>hyprsunset\<close> process, if there is one;
  \<open>applied\<close> lists the arguments of the calls of \<^verbatim>\<open>apply_temperature\<close>;
  \<open>notices\<close> and \<open>stdout\<close> are what the user has been shown. The field
  \<^verbatim>\<open>hyprsunset_pid\<close> is written and never read, and the text of the log lines is
  not kept.
\<close>

record sys =
  state :: json
  state_file :: disk_file
  running :: "int option"
  applied :: "int list"
  notices :: "notice list"
  stdout :: "printed list"

datatype launch_result = Launched | Launch_not_found | Launch_error

text \<open>
  What the surroundings answer during one operation: the UTC hour, what
  \<^verbatim>\<open>get_weather()\<close> returns or raises, whether \<^verbatim>\<open>pkill\<close> can be run, how
  starting \<^verbatim>\<open>hyprsunset\<close> ends, whether \<^verbatim>\<open>STATE_FILE\<close> can be written,
  whether \<^verbatim>\<open>LOG_FILE\<close> can be appended (where not, \<^verbatim>\<open>log\<close> raises an
  \<^verbatim>\<open>OSError\<close> that is no \<^verbatim>\<open>FileNotFoundError\<close>, the directory being there),
  and whether \<^verbatim>\<open>notify-send\<close> is installed.
\<close>

record env =
  hour :: nat
  weather :: "exc + json option"
  pkill :: bool
  launch :: launch_result
  writable :: bool
  log_ok :: bool
  notifier :: bool

type_synonym 'a prog = "sys \<Rightarrow> (exc + 'a) \<times> sys"

definition ret :: "'a \<Rightarrow> 'a prog" where
  "ret v s = (Inr v, s)"

definition raise :: "exc \<Rightarrow> 'a prog" where
  "raise x s = (Inl x, s)"

definition bind :: "'a prog \<Rightarrow> ('a \<Rightarrow> 'b prog) \<Rightarrow> 'b prog" where
  "bind m f s = (case m s of (Inl x, s') \<Rightarrow> (Inl x, s') | (Inr v, s') \<Rightarrow> f v s')"

definition seq :: "unit prog \<Rightarrow> 'a prog \<Rightarrow> 'a prog" where
  "seq m n = bind m (\<lambda>_. n)"

definition try_except :: "'a prog \<Rightarrow> (exc \<Rightarrow> 'a prog) \<Rightarrow> 'a prog" where
  "try_except m h s = (case m s of (Inl x, s') \<Rightarrow> h x s' | (Inr v, s') \<Rightarrow> (Inr v, s'))"

definition modify :: "(sys \<Rightarrow> sys) \<Rightarrow> unit prog" where
  "modify f s = (Inr (), f s)"

definition lift :: "exc + 'a \<Rightarrow> 'a prog" where
  "lift r s = (r, s)"

text \<open>\<^verbatim>\<open>self.state[k]\<close> and \<^verbatim>\<open>self.state[k] = v\<close>.\<close>

definition get_state :: "string \<Rightarrow> json prog" where
  "get_state k s = (getitem (state s) k, s)"

definition set_state :: "string \<Rightarrow> json \<Rightarrow> unit prog" where
  "set_state k v s =
     (case setitem (state s) k v of
        Inl x \<Rightarrow> (Inl x, s)
      | Inr j \<Rightarrow> (Inr (), s\<lparr>state := j\<rparr>))"

section \<open>StateStore, notifier, log\<close>

definition log_msg :: "env \<Rightarrow> unit prog" where
  "log_msg e = (if log_ok e then ret () else raise OSError)"

definition notify :: "env \<Rightarrow> notice \<Rightarrow> unit prog" where
  "notify e n =
     (if notifier e
      then seq (modify (\<lambda>s. s\<lparr>notices := notices s @ [n]\<rparr>)) (log_msg e)
      else ret ())"

definition default_state :: json where
  "default_state =
     JObj [(''manual'', JBool False), (''bluelight'', JBool False), (''last_temp'', JInt 4500)]"

definition load_state :: "env \<Rightarrow> unit prog" where
  "load_state e =
     try_except
       (seq (\<lambda>s. case state_file s of
                    Json j \<Rightarrow> (Inr (), s\<lparr>state := j\<rparr>)
                  | Missing \<Rightarrow> (Inl FileNotFoundError, s)
                  | Not_JSON \<Rightarrow> (Inl JSONDecodeError, s)
                  | Unreadable \<Rightarrow> (Inl OSError, s))
            (log_msg e))
       (\<lambda>x. if x = FileNotFoundError \<or> x = JSONDecodeError
            then seq (modify (\<lambda>s. s\<lparr>state := default_state\<rparr>)) (log_msg e)
            else seq (log_msg e) (modify (\<lambda>s. s\<lparr>state := default_state\<rparr>)))"

definition save_state :: "env \<Rightarrow> unit prog" where
  "save_state e =
     try_except
       (seq (\<lambda>s. if writable e then (Inr (), s\<lparr>state_file := Json (state s)\<rparr>)
                 else (Inl OSError, s))
            (log_msg e))
       (\<lambda>x. log_msg e)"

section \<open>TemperatureDecider\<close>

definition rainy :: "json \<Rightarrow> bool" where
  "rainy v = (v = JStr ''Rain'' \<or> v = JStr ''Drizzle'' \<or> v = JStr ''Thunderstorm'')"

definition is_night :: "nat \<Rightarrow> bool" where
  "is_night current_hour = (current_hour < 6 \<or> current_hour \<ge> 20)"

definition calculate_temperature :: "env \<Rightarrow> int prog" where
  "calculate_temperature e =
     bind (get_state ''bluelight'') (\<lambda>_.
     bind (lift (weather e)) (\<lambda>w.
       case w of
         None \<Rightarrow> ret (if is_night (hour e) then NIGHT_DEFAULT else DAY_CLEAR)
       | Some wj \<Rightarrow>
           if \<not> truthy wj
           then ret (if is_night (hour e) then NIGHT_DEFAULT else DAY_CLEAR)
           else if is_night (hour e)
           then lift
             (sbind (sbind (getitem wj ''main'') (\<lambda>m. getitem m ''temp'')) (\<lambda>temp.
              sbind (sbind (sbind (getitem wj ''weather'') getitem0) (\<lambda>w0. getitem w0 ''main''))
                (\<lambda>c.
                if rainy c then Inr NIGHT_COLD
                else sbind (less_int temp 5) (\<lambda>cold.
                  Inr (if cold then NIGHT_COLD else NIGHT_DEFAULT)))))
           else lift
             (sbind (sbind (sbind (getitem wj ''weather'') getitem0) (\<lambda>w0. getitem w0 ''main''))
                (\<lambda>weather_main.
                if weather_main = JStr ''Clear'' then Inr DAY_CLEAR
                else if rainy weather_main then Inr DAY_RAINY
                else Inr DAY_CLOUDY))))"

section \<open>DisplayApplier\<close>

text \<open>
  The first \<^verbatim>\<open>try\<close> ends every running \<^verbatim>\<open>hyprsunset\<close>; the second starts
  a new one and, only when that worked, records the temperature and saves. Every
  statement of the second \<^verbatim>\<open>try\<close> is under its two handlers.
\<close>

definition apply_temperature :: "env \<Rightarrow> int \<Rightarrow> unit prog" where
  "apply_temperature e temp =
     seq (modify (\<lambda>s. s\<lparr>applied := applied s @ [temp]\<rparr>))
    (seq (if pkill e then modify (\<lambda>s. s\<lparr>running := None\<rparr>) else log_msg e)
         (try_except
            (seq (case launch e of
                    Launched \<Rightarrow> modify (\<lambda>s. s\<lparr>running := Some temp\<rparr>)
                  | Launch_not_found \<Rightarrow> raise FileNotFoundError
                  | Launch_error \<Rightarrow> raise OSError)
            (seq (set_state ''last_temp'' (JInt temp))
            (seq (save_state e)
            (seq (notify e (Temperature_set temp))
                 (log_msg e)))))
            (\<lambda>x. if x = FileNotFoundError
                 then seq (log_msg e) (notify e Not_installed)
                 else seq (log_msg e) (notify e Error_setting))))"

section \<open>ModeController\<close>

definition update_temperature :: "env \<Rightarrow> unit prog" where
  "update_temperature e =
     bind (get_state ''manual'') (\<lambda>manual.
       if \<not> truthy manual
       then bind (calculate_temperature e) (\<lambda>new_temp.
            seq (bind (get_state ''last_temp'') (\<lambda>_. log_msg e))
           (bind (get_state ''last_temp'') (\<lambda>last_temp.
              if \<not> eq_int new_temp last_temp
              then apply_temperature e new_temp
              else log_msg e)))
       else ret ())"

definition toggle_bluelight :: "env \<Rightarrow> unit prog" where
  "toggle_bluelight e =
     bind (get_state ''manual'') (\<lambda>manual.
       if \<not> truthy manual
       then notify e Cannot_toggle_in_automatic
       else bind (get_state ''bluelight'') (\<lambda>old.
            seq (set_state ''bluelight'' (JBool (\<not> truthy old)))
           (bind (get_state ''bluelight'') (\<lambda>b.
            seq (apply_temperature e (if truthy b then MANUAL_ON else MANUAL_OFF))
           (seq (save_state e)
           (bind (get_state ''bluelight'') (\<lambda>b'.
              notify e (if truthy b' then Toggled_on else Toggled_off))))))))"

definition toggle_manual_mode :: "env \<Rightarrow> unit prog" where
  "toggle_manual_mode e =
     seq (load_state e)
    (seq (bind (get_state ''manual'') (\<lambda>_. log_msg e))
    (seq (bind (get_state ''manual'') (\<lambda>manual.
            if truthy manual
            then seq (set_state ''manual'' (JBool False))
                (seq (set_state ''bluelight'' (JBool False))
                (seq (save_state e)
                (seq (log_msg e)
                (seq (notify e Switched_to_automatic)
                     (update_temperature e)))))
            else seq (set_state ''manual'' (JBool True))
                (seq (set_state ''bluelight'' (JBool False))
                (seq (save_state e)
                (seq (log_msg e)
                (seq (apply_temperature e MANUAL_OFF)
                     (notify e Switched_to_manual)))))))
         (bind (get_state ''manual'') (\<lambda>_. log_msg e))))"

definition toggle_auto_mode :: "env \<Rightarrow> unit prog" where
  "toggle_auto_mode e =
     bind (get_state ''manual'') (\<lambda>manual.
       if truthy manual
       then seq (set_state ''manual'' (JBool False))
           (seq (set_state ''bluelight'' (JBool False))
           (seq (save_state e)
           (seq (notify e Switched_to_automatic)
                (update_temperature e))))
       else notify e Already_automatic)"

definition force_manual_mode :: "env \<Rightarrow> unit prog" where
  "force_manual_mode e =
     bind (get_state ''manual'') (\<lambda>manual.
       if \<not> truthy manual
       then seq (set_state ''manual'' (JBool True))
           (seq (set_state ''bluelight'' (JBool False))
           (seq (apply_temperature e MANUAL_OFF)
           (seq (save_state e)
                (notify e Switched_to_manual))))
       else notify e Already_manual)"

section \<open>Command line\<close>

text \<open>\<^verbatim>\<open>str.lower\<close> on ASCII text.\<close>

definition lower_char :: "char \<Rightarrow> char" where
  "lower_char c =
     (case map_of (zip ''ABCDEFGHIJKLMNOPQRSTUVWXYZ'' ''abcdefghijklmnopqrstuvwxyz'') c of
        Some d \<Rightarrow> d
      | None \<Rightarrow> c)"

definition lower :: "string \<Rightarrow> string" where
  "lower cs = map lower_char cs"

definition print :: "printed \<Rightarrow> unit prog" where
  "print l = modify (\<lambda>s. s\<lparr>stdout := stdout s @ [l]\<rparr>)"

text \<open>
  How the process ends. An exception nobody catches ends it with status 1, the end of
  the script with status 0. The commands \<^verbatim>\<open>refresh-location\<close> and
  \<^verbatim>\<open>status\<close> go to the location and weather providers, which are outside this
  development.
\<close>

datatype outcome = Exit nat sys | Provider_command

definition exit_status :: "(exc + unit) \<times> sys \<Rightarrow> outcome" where
  "exit_status r = (case r of (Inl x, s) \<Rightarrow> Exit 1 s | (Inr u, s) \<Rightarrow> Exit 0 s)"

text \<open>
  The branch \<^verbatim>\<open>len(sys.argv) > 1\<close> of the script, for a configuration file that is
  there and can be read: the manager is built (which loads the state), then the command
  \<^verbatim>\<open>sys.argv[1]\<close> is looked up; \<open>rest\<close> is \<^verbatim>\<open>sys.argv[2:]\<close>. Python's
  \<^verbatim>\<open>int\<close> on a string is the parameter \<open>int_of_str\<close>, \<open>None\<close> where it raises
  \<^verbatim>\<open>ValueError\<close>.
\<close>

definition run_cli ::
    "(string \<Rightarrow> int option) \<Rightarrow> env \<Rightarrow> string \<Rightarrow> string list \<Rightarrow> sys \<Rightarrow> outcome" where
  "run_cli int_of_str e arg1 rest s =
     (let cmd = lower arg1 in
      if cmd = ''refresh-location'' \<or> cmd = ''status'' then Provider_command
      else exit_status
        (seq (load_state e)
           (if cmd = ''toggle'' then toggle_bluelight e
            else if cmd = ''manual'' then toggle_manual_mode e
            else if cmd = ''auto'' then toggle_auto_mode e
            else if cmd = ''force-manual'' then force_manual_mode e
            else if cmd = ''test'' then
              (case rest of
                 a # _ \<Rightarrow>
                   (case int_of_str a of
                      Some temp \<Rightarrow> apply_temperature e temp
                    | None \<Rightarrow> print Invalid_temperature)
               | [] \<Rightarrow> print Usage_test)
            else print Usage)
           s))"

section \<open>The state record and the spec's table\<close>

text \<open>A state dict with the three fields of the persisted record.\<close>

definition mk_state :: "bool \<Rightarrow> bool \<Rightarrow> int \<Rightarrow> json" where
  "mk_state m b t =
     JObj [(''manual'', JBool m), (''bluelight'', JBool b), (''last_temp'', JInt t)]"

text \<open>
  The spec's weather snapshot, read off a payload: the ambient temperature
  \<^verbatim>\<open>main.temp\<close>, a number, and the condition \<^verbatim>\<open>weather[0].main\<close>, a string.
  A payload without them has no snapshot.
\<close>

definition number :: "json \<Rightarrow> real option" where
  "number v = (case v of JInt i \<Rightarrow> Some (of_int i) | JFloat r \<Rightarrow> Some r | _ \<Rightarrow> None)"

definition snapshot_of :: "json \<Rightarrow> (string \<times> real) option" where
  "snapshot_of wj =
     (case sbind (getitem wj ''main'') (\<lambda>m. getitem m ''temp'') of
        Inl x \<Rightarrow> None
      | Inr tj \<Rightarrow>
          (case number tj of
             None \<Rightarrow> None
           | Some t \<Rightarrow>
               (case sbind (sbind (getitem wj ''weather'') getitem0) (\<lambda>w0. getitem w0 ''main'') of
                  Inr (JStr c) \<Rightarrow> Some (c, t)
                | _ \<Rightarrow> None)))"

text \<open>
  The table as the spec words it, over the hour and the snapshot (\<open>None\<close>: no weather
  available), with the Kelvin values the spec gives.
\<close>

definition spec_table :: "nat \<Rightarrow> (string \<times> real) option \<Rightarrow> int" where
  "spec_table h w =
     (case w of
        None \<Rightarrow> (if h < 6 \<or> h \<ge> 20 then 4200 else 6500)
      | Some (c, t) \<Rightarrow>
          if h < 6 \<or> h \<ge> 20
          then (if c \<in> {''Rain'', ''Drizzle'', ''Thunderstorm''} then 3800
                else if t < 5 then 3800
                else 4200)
          else (if c = ''Clear'' then 6500
                else if c \<in> {''Rain'', ''Drizzle'', ''Thunderstorm''} then 5200
                else 5800))"

text \<open>The invariant of the record: in automatic mode the filter flag is off.\<close>

definition record_of :: "json \<Rightarrow> (bool \<times> bool \<times> int) option" where
  "record_of j =
     (case (getitem j ''manual'', getitem j ''bluelight'', getitem j ''last_temp'') of
        (Inr (JBool m), Inr (JBool b), Inr (JInt t)) \<Rightarrow> Some (m, b, t)
      | _ \<Rightarrow> None)"

definition invariant :: "json \<Rightarrow> bool" where
  "invariant j = (case record_of j of Some (m, b, t) \<Rightarrow> \<not> m \<longrightarrow> \<not> b | None \<Rightarrow> False)"

section \<open>Runs\<close>

text \<open>
  A fresh installation: no state file, nothing running, no manager built yet. A run is
  a list of steps, each with the surroundings it meets: the five operations of the
  controller, a new process building its manager (\<open>Restart\<close>), and the \<^verbatim>\<open>test\<close>
  command's direct call of the applier.
\<close>

definition fresh_install :: sys where
  "fresh_install =
     \<lparr>state = JNull, state_file = Missing, running = None, applied = [], notices = [],
      stdout = []\<rparr>"

datatype operation =
    Reconcile
  | Toggle_filter
  | Toggle_manual_mode
  | Switch_to_automatic
  | Switch_to_manual
  | Restart
  | Test int

fun step :: "env \<times> operation \<Rightarrow> sys \<Rightarrow> sys" where
  "step (e, Reconcile) s = snd (update_temperature e s)"
| "step (e, Toggle_filter) s = snd (toggle_bluelight e s)"
| "step (e, Toggle_manual_mode) s = snd (toggle_manual_mode e s)"
| "step (e, Switch_to_automatic) s = snd (toggle_auto_mode e s)"
| "step (e, Switch_to_manual) s = snd (force_manual_mode e s)"
| "step (e, Restart) s = snd (load_state e s)"
| "step (e, Test k) s = snd (apply_temperature e k s)"

fun run :: "(env \<times> operation) list \<Rightarrow> sys \<Rightarrow> sys" where
  "run [] s = s"
| "run (x # xs) s = run xs (step x s)"

section \<open>Closed forms and examples used in the proofs\<close>

text \<open>
  The next definitions do not model anything new: each is the result of one of the
  operations above written out, and is proved equal to it below.
\<close>

definition loaded :: "env \<Rightarrow> sys \<Rightarrow> sys" where
  "loaded e s =
     s\<lparr>state := (case state_file s of
                   Json j \<Rightarrow> j
                 | Unreadable \<Rightarrow> if log_ok e then default_state else state s
                 | _ \<Rightarrow> default_state)\<rparr>"

definition after_apply :: "env \<Rightarrow> int \<Rightarrow> bool \<Rightarrow> bool \<Rightarrow> sys \<Rightarrow> sys" where
  "after_apply e k m b s =
     (if \<not> pkill e \<and> \<not> log_ok e then s\<lparr>applied := applied s @ [k]\<rparr>
      else case launch e of
        Launched \<Rightarrow>
          s\<lparr>state := mk_state m b k,
            state_file := (if writable e then Json (mk_state m b k) else state_file s),
            running := Some k,
            applied := applied s @ [k],
            notices := (if notifier e \<and> log_ok e then notices s @ [Temperature_set k]
                        else notices s)\<rparr>
      | Launch_not_found \<Rightarrow>
          s\<lparr>running := (if pkill e then None else running s),
            applied := applied s @ [k],
            notices := (if notifier e \<and> log_ok e then notices s @ [Not_installed]
                        else notices s)\<rparr>
      | Launch_error \<Rightarrow>
          s\<lparr>running := (if pkill e then None else running s),
            applied := applied s @ [k],
            notices := (if notifier e \<and> log_ok e then notices s @ [Error_setting]
                        else notices s)\<rparr>)"

definition good :: "json \<Rightarrow> bool" where
  "good j = (\<exists>m b t. j = mk_state m b t \<and> (\<not> m \<longrightarrow> \<not> b))"

definition file_ok :: "disk_file \<Rightarrow> bool" where
  "file_ok f = (case f of Missing \<Rightarrow> True | Json j \<Rightarrow> good j | _ \<Rightarrow> False)"

definition good_sys :: "sys \<Rightarrow> bool" where
  "good_sys s = (good (state s) \<and> file_ok (state_file s))"

text \<open>
  The fresh installation once a manager holds the default record; surroundings in
  which everything works, at 22 h UTC and with no weather to be had; and a weather
  payload cut down to the two fields the decider reads.
\<close>

definition booted :: sys where
  "booted = fresh_install\<lparr>state := default_state\<rparr>"

definition calm :: env where
  "calm =
     \<lparr>hour = 22, weather = Inr None, pkill = True, launch = Launched, writable = True,
      log_ok = True, notifier = True\<rparr>"

definition payload :: "string \<Rightarrow> json \<Rightarrow> json" where
  "payload c t =
     JObj [(''weather'', JArr [JObj [(''main'', JStr c)]]), (''main'', JObj [(''temp'', t)])]"

text \<open>
  A daemon and a command sharing one state file: the daemon builds its manager on a fresh
  installation and reconciles once at night; a second process then runs the command
  \<^verbatim>\<open>manual\<close>. The result is the daemon's memory over the disk as the command
  left it.
\<close>

definition stale_daemon :: sys where
  "stale_daemon =
     (let daemon = snd (update_temperature calm (snd (load_state calm fresh_install)));
          command = snd (toggle_manual_mode calm (snd (load_state calm daemon)))
      in command\<lparr>state := state daemon\<rparr>)"

text \<open>
  The same daemon, with the second process running \<^verbatim>\<open>test\<close> instead, on an
  argument that is the decimal numeral of 6500 or of 3000 (the two strings on which
  \<open>int_of_example\<close> is Python's \<^verbatim>\<open>int\<close>).
\<close>

definition int_of_example :: "string \<Rightarrow> int option" where
  "int_of_example a =
     (if a = ''6500'' then Some 6500 else if a = ''3000'' then Some 3000 else None)"

definition daemon_after_test :: "string \<Rightarrow> sys" where
  "daemon_after_test a =
     (let daemon = snd (update_temperature calm (snd (load_state calm fresh_install)));
          command = (case run_cli int_of_example calm ''test'' [a] daemon of
                       Exit c s' \<Rightarrow> s'
                     | Provider_command \<Rightarrow> daemon)
      in command\<lparr>state := state daemon\<rparr>)"

lemmas TEMPERATURE_PROFILE =
  DAY_CLEAR_def DAY_CLOUDY_def DAY_RAINY_def NIGHT_DEFAULT_def NIGHT_COLD_def
  MANUAL_ON_def MANUAL_OFF_def


lemmas prog_defs = bind_def seq_def ret_def raise_def try_except_def modify_def lift_def
  get_state_def set_state_def log_msg_def

section \<open>TemperatureDecider: the table\<close>

lemma snapshot_truthy: "snapshot_of wj = Some ct \<Longrightarrow> truthy wj"
  by (cases wj) (auto simp: snapshot_of_def sbind_def)

lemma less_int_number: "number tj = Some t \<Longrightarrow> less_int tj n = Inr (t < of_int n)"
  by (cases tj) (auto simp: number_def)

lemma calculate_temperature_none:
  "getitem (state s) ''bluelight'' = Inr b \<Longrightarrow> weather e = Inr None \<Longrightarrow>
   calculate_temperature e s = (Inr (spec_table (hour e) None), s)"
  by (simp add: calculate_temperature_def prog_defs spec_table_def is_night_def
      TEMPERATURE_PROFILE)

lemma calculate_temperature_snapshot:
  assumes "getitem (state s) ''bluelight'' = Inr b" "weather e = Inr (Some wj)"
    "snapshot_of wj = Some (c, t)"
  shows "calculate_temperature e s = (Inr (spec_table (hour e) (Some (c, t))), s)"
proof -
  from assms(3) obtain tj where
    t1: "sbind (getitem wj ''main'') (\<lambda>m. getitem m ''temp'') = Inr tj" and
    t2: "number tj = Some t" and
    t3: "sbind (sbind (getitem wj ''weather'') getitem0) (\<lambda>w0. getitem w0 ''main'') =
         Inr (JStr c)"
    by (auto simp: snapshot_of_def split: sum.splits option.splits json.splits)
  have tr: "truthy wj" using assms(3) by (rule snapshot_truthy)
  show ?thesis
    using assms(1,2) tr t1 t3 less_int_number[OF t2, of 5]
    by (simp add: calculate_temperature_def prog_defs spec_table_def is_night_def rainy_def
        TEMPERATURE_PROFILE sbind_def)
qed

lemma calculate_temperature_snd: "snd (calculate_temperature e s) = s"
  by (auto simp: calculate_temperature_def prog_defs
      split: sum.splits option.splits prod.splits)

lemma snapshot_payload:
  "snapshot_of (payload c (JFloat r)) = Some (c, r)"
  "snapshot_of (payload c (JInt i)) = Some (c, of_int i)"
  by (simp_all add: snapshot_of_def payload_def sbind_def number_def)

text \<open>
  Claim C1. Whatever the UTC hour, the decider returns the spec's table: on the
  snapshot of the weather payload when the weather is available, on the period alone
  when \<^verbatim>\<open>get_weather()\<close> has nothing (4200 K at night, 6500 K by day). The state
  is any dict with a \<^verbatim>\<open>bluelight\<close> entry, which the decider reads and ignores.
\<close>

theorem calculate_temperature_table:
  assumes "getitem (state s) ''bluelight'' = Inr b"
  shows "(weather e = Inr None \<longrightarrow>
            calculate_temperature e s = (Inr (spec_table (hour e) None), s)) \<and>
         (\<forall>wj c t. weather e = Inr (Some wj) \<and> snapshot_of wj = Some (c, t) \<longrightarrow>
            calculate_temperature e s = (Inr (spec_table (hour e) (Some (c, t))), s))"
  using assms calculate_temperature_none calculate_temperature_snapshot by blast

theorem calculate_temperature_table_witness:
  "getitem (state booted) ''bluelight'' = Inr (JBool False) \<and>
   snapshot_of (payload ''Drizzle'' (JFloat 11.5)) = Some (''Drizzle'', 11.5) \<and>
   calculate_temperature
     (calm\<lparr>hour := 9, weather := Inr (Some (payload ''Drizzle'' (JFloat 11.5)))\<rparr>) booted =
     (Inr 5200, booted) \<and>
   calculate_temperature calm booted = (Inr 4200, booted)"
proof -
  let ?e = "calm\<lparr>hour := 9, weather := Inr (Some (payload ''Drizzle'' (JFloat 11.5)))\<rparr>"
  have h: "getitem (state booted) ''bluelight'' = Inr (JBool False)"
    by (simp add: booted_def default_state_def)
  have w: "weather ?e = Inr (Some (payload ''Drizzle'' (JFloat 11.5)))"
    by simp
  have p: "snapshot_of (payload ''Drizzle'' (JFloat 11.5)) = Some (''Drizzle'', 11.5)"
    by (rule snapshot_payload)
  have n: "weather calm = Inr None"
    by (simp add: calm_def)
  from calculate_temperature_table[OF h, of ?e] w p
  have "calculate_temperature ?e booted =
        (Inr (spec_table (hour ?e) (Some (''Drizzle'', 11.5))), booted)"
    by blast
  moreover from calculate_temperature_table[OF h, of calm] n
  have "calculate_temperature calm booted = (Inr (spec_table (hour calm) None), booted)"
    by blast
  ultimately show ?thesis
    using h p by (simp add: spec_table_def calm_def)
qed

text \<open>
  Claim C7. At night and under a clear sky the cold rule is the strict comparison
  \<open>t < 5\<close>: 4.9 degrees give 3800 K, 5.0 degrees give 4200 K, and in general every
  ambient temperature gives 3800 K exactly when it is below 5.
\<close>

theorem cold_night_boundary_is_strict:
  assumes "is_night (hour e)" "getitem (state s) ''bluelight'' = Inr b"
    "weather e = Inr (Some wj)"
  shows "(snapshot_of wj = Some (''Clear'', 4.9) \<longrightarrow>
            calculate_temperature e s = (Inr 3800, s)) \<and>
         (snapshot_of wj = Some (''Clear'', 5.0) \<longrightarrow>
            calculate_temperature e s = (Inr 4200, s)) \<and>
         (\<forall>t. snapshot_of wj = Some (''Clear'', t) \<longrightarrow>
            calculate_temperature e s = (Inr (if t < 5 then 3800 else 4200), s))"
proof -
  have "calculate_temperature e s = (Inr (if t < 5 then 3800 else 4200), s)"
    if "snapshot_of wj = Some (''Clear'', t)" for t
    using assms that calculate_temperature_snapshot[of s b e wj "''Clear''" t]
    by (simp add: spec_table_def is_night_def)
  from this[of "4.9"] this[of "5.0"] this show ?thesis
    by simp
qed

theorem cold_night_boundary_is_strict_witness:
  "is_night (hour calm) \<and>
   calculate_temperature (calm\<lparr>weather := Inr (Some (payload ''Clear'' (JFloat 4.9)))\<rparr>)
     booted = (Inr 3800, booted) \<and>
   calculate_temperature (calm\<lparr>weather := Inr (Some (payload ''Clear'' (JFloat 5.0)))\<rparr>)
     booted = (Inr 4200, booted)"
proof -
  let ?e = "\<lambda>r. calm\<lparr>weather := Inr (Some (payload ''Clear'' (JFloat r)))\<rparr>"
  have n: "is_night (hour (?e r))" for r
    by (simp add: calm_def is_night_def)
  have h: "getitem (state booted) ''bluelight'' = Inr (JBool False)"
    by (simp add: booted_def default_state_def)
  have w: "weather (?e r) = Inr (Some (payload ''Clear'' (JFloat r)))" for r
    by simp
  have p: "snapshot_of (payload ''Clear'' (JFloat r)) = Some (''Clear'', r)" for r
    by (rule snapshot_payload)
  from cold_night_boundary_is_strict[OF n h w, of "4.9"] p[of "4.9"]
  have "calculate_temperature (?e 4.9) booted = (Inr 3800, booted)"
    by blast
  moreover from cold_night_boundary_is_strict[OF n h w, of "5.0"] p[of "5.0"]
  have "calculate_temperature (?e 5.0) booted = (Inr 4200, booted)"
    by blast
  ultimately show ?thesis
    using n[of 0] by simp
qed

section \<open>The primitives in closed form\<close>

lemma save_state_eq:
  "save_state e s =
     (if log_ok e then Inr () else Inl OSError,
      if writable e then s\<lparr>state_file := Json (state s)\<rparr> else s)"
  by (simp add: save_state_def prog_defs)

lemma notify_eq:
  "notify e n s =
     (if notifier e \<and> \<not> log_ok e then Inl OSError else Inr (),
      if notifier e then s\<lparr>notices := notices s @ [n]\<rparr> else s)"
  by (simp add: notify_def prog_defs)

lemma apply_temperature_eq:
  assumes "state s = mk_state m b t"
  shows "apply_temperature e k s =
     (if log_ok e then Inr () else Inl OSError, after_apply e k m b s)"
  using assms
  by (cases "launch e"; cases "log_ok e"; cases "pkill e"; cases "notifier e";
      cases "writable e")
     (simp_all add: apply_temperature_def after_apply_def save_state_eq notify_eq prog_defs
        mk_state_def)

lemma load_state_eq:
  "load_state e s = (if log_ok e then Inr () else Inl OSError, loaded e s)"
  by (cases "state_file s"; cases "log_ok e") (simp_all add: load_state_def loaded_def prog_defs)

lemma getitem_mk_state [simp]:
  "getitem (mk_state m b t) ''manual'' = Inr (JBool m)"
  "getitem (mk_state m b t) ''bluelight'' = Inr (JBool b)"
  "getitem (mk_state m b t) ''last_temp'' = Inr (JInt t)"
  by (simp_all add: mk_state_def)

lemma setitem_mk_state [simp]:
  "setitem (mk_state m b t) ''manual'' (JBool x) = Inr (mk_state x b t)"
  "setitem (mk_state m b t) ''bluelight'' (JBool x) = Inr (mk_state m x t)"
  "setitem (mk_state m b t) ''last_temp'' (JInt k) = Inr (mk_state m b k)"
  by (simp_all add: mk_state_def)

lemma mk_state_inject [simp]:
  "mk_state m b t = mk_state m' b' t' \<longleftrightarrow> m = m' \<and> b = b' \<and> t = t'"
  by (auto simp: mk_state_def)

section \<open>The invariant is kept by every step\<close>

lemma good_mk [simp]: "good (mk_state m b t) = (\<not> m \<longrightarrow> \<not> b)"
  by (auto simp: good_def)

lemma file_ok_simps [simp]:
  "file_ok Missing" "file_ok (Json j) = good j" "\<not> file_ok Not_JSON" "\<not> file_ok Unreadable"
  by (simp_all add: file_ok_def)

lemma default_state_mk: "default_state = mk_state False False 4500"
  by (simp add: default_state_def mk_state_def)

lemma good_default [simp]: "good default_state"
  by (simp add: default_state_mk)

lemma good_sysE:
  assumes "good_sys s"
  obtains m b t where "state s = mk_state m b t" "\<not> m \<longrightarrow> \<not> b" "file_ok (state_file s)"
  using assms by (auto simp: good_sys_def good_def)

lemma load_good: "good_sys s \<Longrightarrow> good_sys (snd (load_state e s))"
  by (cases "state_file s"; cases "log_ok e")
     (simp_all add: good_sys_def load_state_def prog_defs)

lemma loaded_good: "good_sys s \<Longrightarrow> good_sys (loaded e s)"
  using load_good[of s e] by (simp add: load_state_eq)

lemma start_good: "good_sys (snd (load_state e fresh_install))"
  by (cases "log_ok e") (simp_all add: good_sys_def load_state_def prog_defs fresh_install_def)

lemma after_apply_good:
  "state s = mk_state m b t \<Longrightarrow> \<not> m \<longrightarrow> \<not> b \<Longrightarrow> file_ok (state_file s) \<Longrightarrow>
   good_sys (after_apply e k m b s)"
  by (cases "launch e") (simp_all add: after_apply_def good_sys_def)

lemma after_apply_state:
  "state s = mk_state m b t \<Longrightarrow> \<exists>t'. state (after_apply e k m b s) = mk_state m b t'"
  by (cases "launch e") (simp_all add: after_apply_def)

lemma apply_good: "good_sys s \<Longrightarrow> good_sys (snd (apply_temperature e k s))"
  by (erule good_sysE) (simp add: apply_temperature_eq after_apply_good)

lemma update_good: "good_sys s \<Longrightarrow> good_sys (snd (update_temperature e s))"
proof (erule good_sysE)
  fix m b t assume st: "state s = mk_state m b t" and i: "\<not> m \<longrightarrow> \<not> b"
    and f: "file_ok (state_file s)"
  obtain r where c: "calculate_temperature e s = (r, s)"
    using calculate_temperature_snd[of e s] by (cases "calculate_temperature e s") auto
  have g: "good_sys s" using st i f by (simp add: good_sys_def)
  show ?thesis
    using st c g after_apply_good[OF st i f]
    by (cases r; cases "log_ok e"; cases m)
       (simp_all add: update_temperature_def prog_defs apply_temperature_eq)
qed

lemma toggle_good: "good_sys s \<Longrightarrow> good_sys (snd (toggle_bluelight e s))"
proof (erule good_sysE)
  fix m b t assume st: "state s = mk_state m b t" and i: "\<not> m \<longrightarrow> \<not> b"
    and f: "file_ok (state_file s)"
  show ?thesis
  proof (cases m)
    case False
    with st i f show ?thesis
      by (simp add: toggle_bluelight_def prog_defs notify_eq good_sys_def)
  next
    case True
    let ?s1 = "s\<lparr>state := mk_state True (\<not> b) t\<rparr>"
    have st1: "state ?s1 = mk_state True (\<not> b) t" by simp
    have "good_sys (after_apply e k True (\<not> b) ?s1)" for k
      by (rule after_apply_good[OF st1]) (use f in simp_all)
    moreover obtain t' where
      "state (after_apply e (if \<not> b then MANUAL_ON else MANUAL_OFF) True (\<not> b) ?s1) =
       mk_state True (\<not> b) t'"
      using after_apply_state[OF st1] by blast
    ultimately show ?thesis using True st
      by (cases "log_ok e")
        (simp_all add: toggle_bluelight_def prog_defs apply_temperature_eq[OF st1]
          save_state_eq notify_eq good_sys_def)
  qed
qed

lemma auto_good: "good_sys s \<Longrightarrow> good_sys (snd (toggle_auto_mode e s))"
proof (erule good_sysE)
  fix m b t assume st: "state s = mk_state m b t" and i: "\<not> m \<longrightarrow> \<not> b"
    and f: "file_ok (state_file s)"
  show ?thesis
  proof (cases m)
    case False
    with st i f show ?thesis
      by (simp add: toggle_auto_mode_def prog_defs notify_eq good_sys_def)
  next
    case True
    define s1 where "s1 = s\<lparr>state := mk_state False False t\<rparr>"
    define s2 where "s2 = (if writable e then s1\<lparr>state_file := Json (state s1)\<rparr> else s1)"
    define s3 where
      "s3 = (if notifier e then s2\<lparr>notices := notices s2 @ [Switched_to_automatic]\<rparr> else s2)"
    have g2: "good_sys s2" using f by (simp add: s2_def s1_def good_sys_def)
    then have g3: "good_sys s3" by (simp add: s3_def good_sys_def)
    have "toggle_auto_mode e s =
        (if log_ok e then update_temperature e s3 else (Inl OSError, s2))"
      using True st
      by (simp add: toggle_auto_mode_def prog_defs save_state_eq notify_eq s1_def s2_def
          s3_def)
    then show ?thesis using g2 update_good[OF g3, of e] by simp
  qed
qed

lemma force_good: "good_sys s \<Longrightarrow> good_sys (snd (force_manual_mode e s))"
proof (erule good_sysE)
  fix m b t assume st: "state s = mk_state m b t" and i: "\<not> m \<longrightarrow> \<not> b"
    and f: "file_ok (state_file s)"
  show ?thesis
  proof (cases m)
    case True
    with st i f show ?thesis
      by (simp add: force_manual_mode_def prog_defs notify_eq good_sys_def)
  next
    case False
    define s1 where "s1 = s\<lparr>state := mk_state True False t\<rparr>"
    have st1: "state s1 = mk_state True False t" by (simp add: s1_def)
    define s2 where "s2 = after_apply e MANUAL_OFF True False s1"
    have g2: "good_sys s2" unfolding s2_def
      by (rule after_apply_good[OF st1]) (use f in \<open>simp_all add: s1_def\<close>)
    have "snd (force_manual_mode e s) =
            snd (seq (save_state e) (notify e Switched_to_manual) s2) \<or>
          snd (force_manual_mode e s) = s2"
      using False st
      by (simp add: force_manual_mode_def bind_def[of "get_state _"] get_state_def
          seq_def[of "set_state _ _"] bind_def[of "set_state _ _"] set_state_def
          seq_def[of "apply_temperature _ _"] bind_def[of "apply_temperature _ _"]
          apply_temperature_eq[OF st1] s1_def[symmetric] s2_def[symmetric])
    moreover have "good_sys (snd (seq (save_state e) (notify e Switched_to_manual) s2))"
      using g2 by (simp add: prog_defs save_state_eq notify_eq good_sys_def)
    ultimately show ?thesis using g2 by auto
  qed
qed

lemma manual_good: "good_sys s \<Longrightarrow> good_sys (snd (toggle_manual_mode e s))"
proof -
  assume g: "good_sys s"
  define s0 where "s0 = loaded e s"
  have g0: "good_sys s0" unfolding s0_def using g by (rule loaded_good)
  then obtain m b t where st: "state s0 = mk_state m b t" and f: "file_ok (state_file s0)"
    by (rule good_sysE)
  show ?thesis
  proof (cases "log_ok e")
    case False
    then show ?thesis using g0
      by (simp add: toggle_manual_mode_def seq_def[of "load_state e"] bind_def[of "load_state e"]
          load_state_eq s0_def)
  next
    case lg: True
    show ?thesis
    proof (cases m)
      case True
      define s1 where "s1 = s0\<lparr>state := mk_state False False t\<rparr>"
      define s2 where "s2 = (if writable e then s1\<lparr>state_file := Json (state s1)\<rparr> else s1)"
      define s3 where
        "s3 = (if notifier e then s2\<lparr>notices := notices s2 @ [Switched_to_automatic]\<rparr> else s2)"
      have g3: "good_sys s3" using f by (simp add: s3_def s2_def s1_def good_sys_def)
      obtain r s4 where u: "update_temperature e s3 = (r, s4)"
        by (cases "update_temperature e s3")
      have g4: "good_sys s4" using update_good[OF g3, of e] u by simp
      obtain m4 b4 t4 where st4: "state s4 = mk_state m4 b4 t4"
        using g4 by (rule good_sysE)
      have "snd (toggle_manual_mode e s) = s4"
        using True st lg u st4 unfolding s3_def s2_def s1_def
        by (cases r; cases "notifier e"; cases "writable e")
           (simp_all add: toggle_manual_mode_def prog_defs save_state_eq notify_eq load_state_eq
            s0_def[symmetric])
      then show ?thesis using g4 by simp
    next
      case False
      define s1 where "s1 = s0\<lparr>state := mk_state True False t\<rparr>"
      define s2 where "s2 = (if writable e then s1\<lparr>state_file := Json (state s1)\<rparr> else s1)"
      have st2: "state s2 = mk_state True False t" by (simp add: s2_def s1_def)
      have f2: "file_ok (state_file s2)" using f by (simp add: s2_def s1_def)
      define s3 where "s3 = after_apply e MANUAL_OFF True False s2"
      have g3: "good_sys s3" unfolding s3_def
        by (rule after_apply_good[OF st2]) (use f2 in simp_all)
      obtain t' where st3: "state s3 = mk_state True False t'"
        unfolding s3_def using after_apply_state[OF st2] by blast
      have "snd (toggle_manual_mode e s) =
          (if notifier e then s3\<lparr>notices := notices s3 @ [Switched_to_manual]\<rparr> else s3)"
        using False st lg st3
        by (simp add: toggle_manual_mode_def prog_defs save_state_eq notify_eq load_state_eq
            apply_temperature_eq[OF st2]
            s0_def[symmetric] s1_def[symmetric] s2_def[symmetric] s3_def[symmetric])
      then show ?thesis using g3 by (simp add: good_sys_def)
    qed
  qed
qed

lemma step_good: "good_sys s \<Longrightarrow> good_sys (step x s)"
  by (cases "(x, s)" rule: step.cases)
     (simp_all add: update_good toggle_good manual_good auto_good force_good load_good apply_good)

lemma run_good: "good_sys s \<Longrightarrow> good_sys (run xs s)"
  by (induction xs arbitrary: s) (simp_all add: step_good)

lemma good_invariant: "good j \<Longrightarrow> invariant j"
  by (auto simp: good_def invariant_def record_of_def)

text \<open>
  Claim C6. In every state reached from a fresh installation by building a manager and
  then running any sequence of the controller's operations (and of restarts and test
  commands), in any surroundings, the record in memory and the record in the state file
  have the filter flag off whenever they are in automatic mode.
\<close>

theorem filter_off_in_automatic_reachable:
  "invariant (state (run xs (snd (load_state e fresh_install)))) \<and>
   (\<forall>j. state_file (run xs (snd (load_state e fresh_install))) = Json j \<longrightarrow> invariant j)"
proof -
  have "good_sys (run xs (snd (load_state e fresh_install)))"
    by (rule run_good[OF start_good])
  then show ?thesis
    by (auto simp: good_sys_def good_invariant)
qed

theorem filter_off_in_automatic_reachable_witness:
  "state_file
     (run [(calm, Toggle_manual_mode), (calm, Toggle_filter), (calm, Switch_to_automatic)]
      (snd (load_state calm fresh_install))) = Json (mk_state False False 4200) \<and>
   invariant (mk_state False False 4200) \<and>
   state_file (run [(calm, Toggle_manual_mode), (calm, Toggle_filter)]
      (snd (load_state calm fresh_install))) = Json (mk_state True True 5000) \<and>
   invariant (mk_state True True 5000)"
proof -
  let ?xs = "[(calm, Toggle_manual_mode), (calm, Toggle_filter), (calm, Switch_to_automatic)]"
  let ?ys = "[(calm, Toggle_manual_mode), (calm, Toggle_filter)]"
  have x: "state_file (run ?xs (snd (load_state calm fresh_install))) =
      Json (mk_state False False 4200)"
    by (simp add: calm_def fresh_install_def load_state_def toggle_manual_mode_def
        toggle_bluelight_def toggle_auto_mode_def update_temperature_def
        calculate_temperature_def apply_temperature_def save_state_def notify_def prog_defs
        default_state_def mk_state_def is_night_def TEMPERATURE_PROFILE)
  have y: "state_file (run ?ys (snd (load_state calm fresh_install))) =
      Json (mk_state True True 5000)"
    by (simp add: calm_def fresh_install_def load_state_def toggle_manual_mode_def
        toggle_bluelight_def apply_temperature_def save_state_def notify_def prog_defs
        default_state_def mk_state_def TEMPERATURE_PROFILE)
  from filter_off_in_automatic_reachable[of ?xs calm] x
    filter_off_in_automatic_reachable[of ?ys calm] y
  show ?thesis by simp
qed

section \<open>StateStore: loading\<close>




section \<open>ModeController: reconcile\<close>

lemma applied_after_apply: "applied (after_apply e n m b s) = applied s @ [n]"
  by (cases "launch e") (simp_all add: after_apply_def)

lemma update_temperature_same:
  assumes "state s = mk_state False b t" "fst (calculate_temperature e s) = Inr t"
  shows "snd (update_temperature e s) = s"
proof -
  have "calculate_temperature e s = (Inr t, s)"
    using assms(2) calculate_temperature_snd[of e s] by (cases "calculate_temperature e s") simp
  then show ?thesis
    using assms(1) by (cases "log_ok e") (simp_all add: update_temperature_def prog_defs)
qed

lemma update_temperature_differs:
  assumes "state s = mk_state False b t" "fst (calculate_temperature e s) = Inr n" "n \<noteq> t"
    "log_ok e"
  shows "applied (snd (update_temperature e s)) = applied s @ [n]"
proof -
  have "calculate_temperature e s = (Inr n, s)"
    using assms(2) calculate_temperature_snd[of e s] by (cases "calculate_temperature e s") simp
  then show ?thesis
    using assms(1,3,4)
    by (simp add: update_temperature_def prog_defs apply_temperature_eq applied_after_apply)
qed

text \<open>
  Reconcile in terms of the record the manager holds in memory, which is the one it
  tests: in manual mode it does nothing at all; when the decider returns the
  \<^verbatim>\<open>last_temp\<close> in memory, the applier is not called and nothing changes; the
  applier is called only when the record in memory is in automatic mode with another
  \<^verbatim>\<open>last_temp\<close>, and then (the log permitting) with the computed temperature.
\<close>

lemma update_temperature_on_memory:
  assumes "state s = mk_state m b t"
  shows "(m \<longrightarrow> update_temperature e s = (Inr (), s)) \<and>
         (fst (calculate_temperature e s) = Inr t \<longrightarrow> snd (update_temperature e s) = s) \<and>
         (applied (snd (update_temperature e s)) \<noteq> applied s \<longrightarrow>
            \<not> m \<and> (\<exists>n. fst (calculate_temperature e s) = Inr n \<and> n \<noteq> t)) \<and>
         (\<forall>n. \<not> m \<and> log_ok e \<and> fst (calculate_temperature e s) = Inr n \<and> n \<noteq> t \<longrightarrow>
            applied (snd (update_temperature e s)) = applied s @ [n])"
proof -
  obtain r where c: "calculate_temperature e s = (r, s)"
    using calculate_temperature_snd[of e s] by (cases "calculate_temperature e s") auto
  have a: "applied (after_apply e n m b s) = applied s @ [n]" for n
    by (cases "launch e") (simp_all add: after_apply_def)
  show ?thesis
    using assms c a
    by (cases r; cases "log_ok e"; cases m)
       (simp_all add: update_temperature_def prog_defs apply_temperature_eq)
qed

lemma stale_daemon_eq:
  "stale_daemon =
     \<lparr>state = mk_state False False 4200, state_file = Json (mk_state True False 6500),
      running = Some 6500, applied = [4200, 6500],
      notices = [Temperature_set 4200, Temperature_set 6500, Switched_to_manual], stdout = []\<rparr>"
  by (simp add: stale_daemon_def Let_def calm_def fresh_install_def load_state_def toggle_manual_mode_def
        update_temperature_def
        calculate_temperature_def apply_temperature_def save_state_def notify_def prog_defs
        default_state_def mk_state_def is_night_def TEMPERATURE_PROFILE)

text \<open>
  Claim C4. Reconcile decides on the record in memory, not on the persisted one. With
  the state file saying manual mode and a last applied temperature of 6500 K, and the
  decider returning 6500 K, the daemon's reconcile is no no-op: it calls the applier with
  6500 K, shows the notice and rewrites the state file. The claim's two guards (persisted
  mode manual, computed temperature equal to the persisted one) both hold here and
  neither stops it.
\<close>

theorem reconcile_ignores_persisted_record:
  "state_file stale_daemon = Json (mk_state True False 6500) \<and>
   fst (calculate_temperature (calm\<lparr>hour := 12\<rparr>) stale_daemon) = Inr 6500 \<and>
   update_temperature (calm\<lparr>hour := 12\<rparr>) stale_daemon \<noteq> (Inr (), stale_daemon) \<and>
   applied (snd (update_temperature (calm\<lparr>hour := 12\<rparr>) stale_daemon)) =
     applied stale_daemon @ [6500] \<and>
   notices (snd (update_temperature (calm\<lparr>hour := 12\<rparr>) stale_daemon)) =
     notices stale_daemon @ [Temperature_set 6500] \<and>
   state_file (snd (update_temperature (calm\<lparr>hour := 12\<rparr>) stale_daemon)) \<noteq>
     state_file stale_daemon"
  by (simp add: stale_daemon_eq update_temperature_def calculate_temperature_def prog_defs
      calm_def apply_temperature_eq[where m=False and b=False and t=4200] after_apply_def
      is_night_def TEMPERATURE_PROFILE)

text \<open>
  Claim C3. Reconcile does not reload the state: with the state file saying manual mode
  (written by the \<^verbatim>\<open>manual\<close> command of another process) and the daemon's own
  record still saying automatic, the daemon's next reconcile at noon applies 6500 K and
  writes its own record over the file, which puts the installation back in automatic
  mode. An operation that began by reloading would have found manual mode and done
  nothing.
\<close>

theorem reconcile_acts_on_stale_state:
  "state stale_daemon = mk_state False False 4200 \<and>
   state_file stale_daemon = Json (mk_state True False 6500) \<and>
   state_file (snd (update_temperature (calm\<lparr>hour := 12\<rparr>) stale_daemon)) =
     Json (mk_state False False 6500) \<and>
   applied (snd (update_temperature (calm\<lparr>hour := 12\<rparr>) stale_daemon)) =
     applied stale_daemon @ [6500]"
  by (simp add: stale_daemon_eq update_temperature_def calculate_temperature_def prog_defs calm_def
     apply_temperature_eq[where m=False and b=False and t=4200] after_apply_def is_night_def TEMPERATURE_PROFILE)

section \<open>ModeController: the filter toggle\<close>

text \<open>
  Claim C5. With \<^verbatim>\<open>manual\<close> false in the record, the toggle changes neither the
  record in memory nor the state file, calls no applier and leaves the display process
  alone; the one thing it does is the notice of the rejection, shown whenever
  \<^verbatim>\<open>notify-send\<close> is installed.
\<close>

theorem toggle_rejected_in_automatic:
  assumes "getitem (state s) ''manual'' = Inr (JBool False)"
  shows "state (snd (toggle_bluelight e s)) = state s \<and>
         state_file (snd (toggle_bluelight e s)) = state_file s \<and>
         running (snd (toggle_bluelight e s)) = running s \<and>
         applied (snd (toggle_bluelight e s)) = applied s \<and>
         notices (snd (toggle_bluelight e s)) =
           (if notifier e then notices s @ [Cannot_toggle_in_automatic] else notices s)"
  using assms by (simp add: toggle_bluelight_def prog_defs notify_eq)

theorem toggle_rejected_in_automatic_witness:
  "getitem (state (booted\<lparr>state := mk_state False True 4200\<rparr>)) ''manual'' = Inr (JBool False) \<and>
   toggle_bluelight calm (booted\<lparr>state := mk_state False True 4200\<rparr>) =
     (Inr (), booted\<lparr>state := mk_state False True 4200, notices := [Cannot_toggle_in_automatic]\<rparr>)"
proof -
  let ?s = "booted\<lparr>state := mk_state False True 4200\<rparr>"
  have h: "getitem (state ?s) ''manual'' = Inr (JBool False)" by simp
  have "fst (toggle_bluelight calm ?s) = Inr ()"
    by (simp add: toggle_bluelight_def prog_defs notify_eq calm_def)
  moreover have "stdout (snd (toggle_bluelight calm ?s)) = []"
    by (simp add: toggle_bluelight_def prog_defs notify_eq calm_def booted_def fresh_install_def)
  moreover note toggle_rejected_in_automatic[OF h, of calm]
  ultimately show ?thesis using h
    by (cases "toggle_bluelight calm ?s") (auto simp: calm_def booted_def fresh_install_def)
qed

text \<open>
  Claim C9. In manual mode, when \<^verbatim>\<open>hyprsunset\<close> cannot be started (it is missing or
  the launch fails) while log and state file can be written, the toggle still returns
  normally with the filter flag flipped in memory and in the state file, and with
  \<^verbatim>\<open>last_temp\<close> as it was; the applier was called with the new temperature, and
  the display process is whatever the kill left, not one at that temperature.
\<close>

theorem toggle_persists_flag_when_apply_fails:
  assumes "state s = mk_state True b t" "launch e \<noteq> Launched" "log_ok e" "writable e"
  shows "fst (toggle_bluelight e s) = Inr () \<and>
         applied (snd (toggle_bluelight e s)) = applied s @ [if b then 6500 else 5000] \<and>
         running (snd (toggle_bluelight e s)) = (if pkill e then None else running s) \<and>
         state (snd (toggle_bluelight e s)) = mk_state True (\<not> b) t \<and>
         state_file (snd (toggle_bluelight e s)) = Json (mk_state True (\<not> b) t)"
proof -
  have st1: "state (s\<lparr>state := mk_state True (\<not> b) t\<rparr>) = mk_state True (\<not> b) t"
    by simp
  show ?thesis
    using assms
    by (cases "launch e")
       (simp_all add: toggle_bluelight_def prog_defs apply_temperature_eq[OF st1] after_apply_def
          save_state_eq notify_eq TEMPERATURE_PROFILE)
qed

theorem toggle_persists_flag_when_apply_fails_witness:
  "launch (calm\<lparr>launch := Launch_not_found\<rparr>) \<noteq> Launched \<and>
   state (snd (toggle_bluelight (calm\<lparr>launch := Launch_not_found\<rparr>)
     (booted\<lparr>state := mk_state True False 6500, running := Some 6500\<rparr>))) = mk_state True True 6500 \<and>
   state_file (snd (toggle_bluelight (calm\<lparr>launch := Launch_not_found\<rparr>)
     (booted\<lparr>state := mk_state True False 6500, running := Some 6500\<rparr>))) = Json (mk_state True True 6500) \<and>
   running (snd (toggle_bluelight (calm\<lparr>launch := Launch_not_found\<rparr>)
     (booted\<lparr>state := mk_state True False 6500, running := Some 6500\<rparr>))) = None"
proof -
  let ?e = "calm\<lparr>launch := Launch_not_found\<rparr>"
  let ?s = "booted\<lparr>state := mk_state True False 6500, running := Some 6500\<rparr>"
  have h: "state ?s = mk_state True False 6500" "launch ?e \<noteq> Launched" "log_ok ?e" "writable ?e"
    by (simp_all add: calm_def)
  have p: "pkill ?e" by (simp add: calm_def)
  from toggle_persists_flag_when_apply_fails[OF h] h(2) p show ?thesis
    by simp
qed

section \<open>Command line\<close>


lemma lower_test: "lower ''test'' = ''test''" "lower ''TEST'' = ''test''"
  by (simp_all add: lower_def lower_char_def)




text \<open>
  The \<^verbatim>\<open>test\<close> command by itself, for every integer \<open>k\<close>: on a state file
  holding a record, with the launch succeeding and log and state file writable, it ends
  with status 0 having called the applier with \<open>k\<close>; the record in memory and on disk
  keeps its two mode flags and has \<^verbatim>\<open>last_temp\<close> \<open>k\<close>. A manager built
  afterwards from that file, in automatic mode, reconciles against \<open>k\<close>.
\<close>

lemma test_command_then_new_manager:
  assumes "lower cmd = ''test''" "int_of_str a = Some k"
    "state_file s = Json (mk_state m b t)" "launch e = Launched" "log_ok e" "writable e"
  shows "\<exists>s'. run_cli int_of_str e cmd (a # rest) s = Exit 0 s' \<and>
           state s' = mk_state m b k \<and> state_file s' = Json (mk_state m b k) \<and>
           running s' = Some k \<and> applied s' = applied s @ [k] \<and>
           (\<forall>e2. \<not> m \<and> fst (calculate_temperature e2 (snd (load_state e2 s'))) = Inr k \<longrightarrow>
              applied (snd (update_temperature e2 (snd (load_state e2 s')))) = applied s') \<and>
           (\<forall>e2 n. \<not> m \<and> log_ok e2 \<and> n \<noteq> k \<and>
                fst (calculate_temperature e2 (snd (load_state e2 s'))) = Inr n \<longrightarrow>
              applied (snd (update_temperature e2 (snd (load_state e2 s')))) = applied s' @ [n])"
proof -
  define s0 where "s0 = loaded e s"
  have st0: "state s0 = mk_state m b t"
    using assms(3) by (simp add: s0_def loaded_def)
  define s' where "s' = after_apply e k m b s0"
  have r: "run_cli int_of_str e cmd (a # rest) s = Exit 0 s'"
    using assms
    by (simp add: run_cli_def exit_status_def seq_def bind_def load_state_eq
        apply_temperature_eq[OF st0] s0_def[symmetric] s'_def)
  have p: "state s' = mk_state m b k" "state_file s' = Json (mk_state m b k)"
    "running s' = Some k" "applied s' = applied s @ [k]"
    using assms(4,5,6) by (simp_all add: s'_def after_apply_def s0_def loaded_def)
  have l: "snd (load_state e2 s') = s'" for e2
    using p(1,2) by (simp add: load_state_eq loaded_def)
  have "applied (snd (update_temperature e2 s')) = applied s'"
    if "\<not> m" "fst (calculate_temperature e2 s') = Inr k" for e2
    using update_temperature_same[of s' b k e2] that p(1) by simp
  moreover have "applied (snd (update_temperature e2 s')) = applied s' @ [n]"
    if "\<not> m" "log_ok e2" "n \<noteq> k" "fst (calculate_temperature e2 s') = Inr n" for e2 n
    using update_temperature_differs[of s' b k e2 n] that p(1) by simp
  ultimately show ?thesis
    using r p l by auto
qed

lemma daemon_after_test_eq:
  "daemon_after_test ''6500'' =
     \<lparr>state = mk_state False False 4200, state_file = Json (mk_state False False 6500),
      running = Some 6500, applied = [4200, 6500],
      notices = [Temperature_set 4200, Temperature_set 6500], stdout = []\<rparr>"
  "daemon_after_test ''3000'' =
     \<lparr>state = mk_state False False 4200, state_file = Json (mk_state False False 3000),
      running = Some 3000, applied = [4200, 3000],
      notices = [Temperature_set 4200, Temperature_set 3000], stdout = []\<rparr>"
  by (simp_all add: daemon_after_test_def int_of_example_def Let_def run_cli_def lower_test
      exit_status_def calm_def fresh_install_def load_state_def update_temperature_def
      calculate_temperature_def apply_temperature_def save_state_def notify_def prog_defs
      default_state_def mk_state_def is_night_def TEMPERATURE_PROFILE)

text \<open>
  Claim C10. The command does set and persist \<^verbatim>\<open>last_temp\<close>, but a daemon that
  was already running reconciles against the \<^verbatim>\<open>last_temp\<close> in its own memory,
  not against the persisted \<open>k\<close>. After \<^verbatim>\<open>test 6500\<close> by another process, the
  daemon at noon computes 6500 K, equal to the persisted value, and calls the applier all
  the same. After \<^verbatim>\<open>test 3000\<close>, the daemon at night computes 4200 K, different
  from the persisted 3000, and does nothing: the display stays at 3000 K.
\<close>

theorem reconcile_after_test_ignores_last_temp:
  "state_file (daemon_after_test ''6500'') = Json (mk_state False False 6500) \<and>
   fst (calculate_temperature (calm\<lparr>hour := 12\<rparr>) (daemon_after_test ''6500'')) = Inr 6500 \<and>
   applied (snd (update_temperature (calm\<lparr>hour := 12\<rparr>) (daemon_after_test ''6500''))) =
     applied (daemon_after_test ''6500'') @ [6500] \<and>
   state_file (daemon_after_test ''3000'') = Json (mk_state False False 3000) \<and>
   fst (calculate_temperature calm (daemon_after_test ''3000'')) = Inr 4200 \<and>
   update_temperature calm (daemon_after_test ''3000'') = (Inr (), daemon_after_test ''3000'') \<and>
   running (daemon_after_test ''3000'') = Some 3000"
  by (simp add: daemon_after_test_eq update_temperature_def calculate_temperature_def prog_defs
      calm_def apply_temperature_eq[where m=False and b=False and t=4200] after_apply_def
      is_night_def TEMPERATURE_PROFILE)

end
